theory Spec2Isabelle
  imports Complex_Main "HOL-Library.Log_Nat"
begin

section \<open>Filing data model\<close>

text \<open>
  The records follow the interfaces of \<^verbatim>\<open>types/tax-filing.ts\<close>. A TypeScript
  \<^verbatim>\<open>number\<close> is modelled as a real, the amount it stands for; NaN and the
  infinities are outside the model. The sums and products of the calculation engine are
  taken exactly. The tolerance comparison \<^verbatim>\<open>valuesMatch\<close> is modelled with the
  binary64 arithmetic of the source, because its result at the tolerance depends on the
  rounding. Field names carry the slip type as a prefix, because the same field name
  occurs in several interfaces.
\<close>

record T4Slip =
  t4_id :: string
  t4_employerName :: string
  t4_employerAddress :: string
  t4_employmentIncome :: real
  t4_incomeTaxDeducted :: real
  t4_cppContributions :: real
  t4_eiPremiums :: real
  t4_rppContributions :: real
  t4_unionDues :: real
  t4_charitableDonations :: real

record T4ASlip =
  t4a_id :: string
  t4a_payerName :: string
  t4a_pensionIncome :: real
  t4a_lumpSumPayments :: real
  t4a_selfEmployedCommissions :: real
  t4a_incomeTaxDeducted :: real
  t4a_otherIncome :: real

record T4ESlip =
  t4e_id :: string
  t4e_eiBenefits :: real
  t4e_incomeTaxDeducted :: real
  t4e_amountRepaid :: real

record T5Slip =
  t5_id :: string
  t5_payerName :: string
  t5_actualDividends :: real
  t5_interestFromCanadianSources :: real
  t5_capitalGainsDividends :: real
  t5_foreignIncome :: real
  t5_foreignTaxPaid :: real

record T3Slip =
  t3_id :: string
  t3_trustName :: string
  t3_capitalGains :: real
  t3_eligibleDividends :: real
  t3_otherDividends :: real
  t3_foreignBusinessIncome :: real
  t3_foreignNonBusinessIncome :: real
  t3_otherIncome :: real

record T2202Slip =
  t2202_id :: string
  t2202_institutionName :: string
  t2202_eligibleTuitionFees :: real
  t2202_monthsPartTime :: real
  t2202_monthsFullTime :: real

record T4RSPSlip =
  t4rsp_id :: string
  t4rsp_payerName :: string
  t4rsp_rrspIncome :: real
  t4rsp_incomeTaxDeducted :: real

record T5008Slip =
  t5008_id :: string
  t5008_securityDescription :: string
  t5008_proceeds :: real
  t5008_costBase :: real
  t5008_gain :: real

datatype ContributorType = Self | Spousal

record RRSPContribution =
  rrsp_id :: string
  rrsp_institutionName :: string
  rrsp_contributionAmount :: real
  rrsp_contributorType :: ContributorType

datatype DonationType = Cash | Property | Ecogift

record CharitableDonation =
  don_id :: string
  don_charityName :: string
  don_registrationNumber :: string
  don_donationAmount :: real
  don_donationType :: DonationType

datatype ForWhom = ForSelf | ForSpouse | ForDependent

record MedicalExpense =
  med_id :: string
  med_description :: string
  med_amount :: real
  med_forWhom :: ForWhom

text \<open>\<^verbatim>\<open>homeOfficeMethod: 'flat-rate' | 'detailed' | ''\<close>\<close>

datatype HomeOfficeMethod = FlatRate | Detailed | MethodUnset

record Deductions =
  rrspContributions :: "RRSPContribution list"
  charitableDonations :: "CharitableDonation list"
  medicalExpenses :: "MedicalExpense list"
  childcareExpenses :: real
  homeOfficeDays :: real
  homeOfficeMethod :: HomeOfficeMethod
  movingExpenses :: real
  studentLoanInterest :: real
  professionalDues :: real

record IncomeData =
  t4Slips :: "T4Slip list"
  t4aSlips :: "T4ASlip list"
  t4eSlips :: "T4ESlip list"
  t5Slips :: "T5Slip list"
  t3Slips :: "T3Slip list"
  t2202Slips :: "T2202Slip list"
  t4rspSlips :: "T4RSPSlip list"
  t5008Slips :: "T5008Slip list"
  selfEmploymentIncome :: real
  otherIncome :: real

record Address =
  addr_street :: string
  addr_city :: string
  addr_province :: string
  addr_postalCode :: string

record PersonalInfo =
  firstName :: string
  lastName :: string
  sin :: string
  dateOfBirth :: string
  email :: string
  phone :: string
  province :: string
  maritalStatus :: string
  address :: Address

record TaxSummary =
  totalIncome :: real
  totalDeductions :: real
  taxableIncome :: real
  federalTax :: real
  provincialTax :: real
  totalTax :: real
  totalCredits :: real
  totalPaid :: real
  refundOrOwing :: real

datatype FilingStatus = NotStarted | InProgress | Submitted | Accepted

text \<open>
  The uploaded-document list and the time stamps of a filing are read by none of the
  functions below; the filing keeps the fields they read.
\<close>

record TaxFiling =
  filing_id :: string
  year :: int
  status :: FilingStatus
  personalInfo :: PersonalInfo
  income :: IncomeData
  deductions :: Deductions
  summary :: "TaxSummary option"
  confirmationNumber :: "string option"

section \<open>Tax calculation engine\<close>

text \<open>
  \<^verbatim>\<open>calculateSummary\<close> of \<^verbatim>\<open>contexts/TaxFilingContext.tsx\<close>. The two
  bracket chains and the reducer of the donation credit are the code's own expressions,
  named so that they can be stated about on their own.
\<close>

text \<open>The five branches of the federal chain, in the order of the source.\<close>

definition federalBracket1 :: "real \<Rightarrow> real" where
  "federalBracket1 ti = ti * 0.15"

definition federalBracket2 :: "real \<Rightarrow> real" where
  "federalBracket2 ti = 8380 + (ti - 55867) * 0.205"

definition federalBracket3 :: "real \<Rightarrow> real" where
  "federalBracket3 ti = 19833 + (ti - 111733) * 0.26"

definition federalBracket4 :: "real \<Rightarrow> real" where
  "federalBracket4 ti = 35816 + (ti - 173205) * 0.29"

definition federalBracket5 :: "real \<Rightarrow> real" where
  "federalBracket5 ti = 57144 + (ti - 246752) * 0.33"

definition federalTaxOn :: "real \<Rightarrow> real" where
  "federalTaxOn ti =
     (if ti > 0 then
        (if ti \<le> 55867 then federalBracket1 ti
         else if ti \<le> 111733 then federalBracket2 ti
         else if ti \<le> 173205 then federalBracket3 ti
         else if ti \<le> 246752 then federalBracket4 ti
         else federalBracket5 ti)
      else 0)"

definition provincialBracket1 :: "real \<Rightarrow> real" where
  "provincialBracket1 ti = ti * 0.0505"

definition provincialBracket2 :: "real \<Rightarrow> real" where
  "provincialBracket2 ti = 2598 + (ti - 51446) * 0.0915"

definition provincialBracket3 :: "real \<Rightarrow> real" where
  "provincialBracket3 ti = 7307 + (ti - 102894) * 0.1116"

definition provincialBracket4 :: "real \<Rightarrow> real" where
  "provincialBracket4 ti = 12563 + (ti - 150000) * 0.1216"

definition provincialBracket5 :: "real \<Rightarrow> real" where
  "provincialBracket5 ti = 21075 + (ti - 220000) * 0.1316"

definition provincialTaxOn :: "real \<Rightarrow> real" where
  "provincialTaxOn ti =
     (if ti > 0 then
        (if ti \<le> 51446 then provincialBracket1 ti
         else if ti \<le> 102894 then provincialBracket2 ti
         else if ti \<le> 150000 then provincialBracket3 ti
         else if ti \<le> 220000 then provincialBracket4 ti
         else provincialBracket5 ti)
      else 0)"

text \<open>The callback of the reduce over \<^verbatim>\<open>charitableDonations\<close>.\<close>

definition donationStep :: "real \<Rightarrow> CharitableDonation \<Rightarrow> real" where
  "donationStep acc d =
     (let amount = don_donationAmount d
      in if amount \<le> 200 then acc + amount * 0.15
         else acc + 30 + (amount - 200) * 0.29)"

definition donationCredits :: "CharitableDonation list \<Rightarrow> real" where
  "donationCredits ds = foldl donationStep 0 ds"

text \<open>
  The body of \<^verbatim>\<open>calculateSummary\<close>, one definition for each group of locals of
  the source: total income, total deductions, total credits and tax already paid.
\<close>

definition calcTotalIncome :: "IncomeData \<Rightarrow> real" where
  "calcTotalIncome inc =
     (let t4Income = foldl (\<lambda>sum slip. sum + t4_employmentIncome slip) 0 (t4Slips inc);
          t4aIncome = foldl (\<lambda>sum slip. sum + t4a_pensionIncome slip + t4a_lumpSumPayments slip
                               + t4a_selfEmployedCommissions slip + t4a_otherIncome slip)
                            0 (t4aSlips inc);
          t4eIncome = foldl (\<lambda>sum slip. sum + t4e_eiBenefits slip) 0 (t4eSlips inc);
          t5Income = foldl (\<lambda>sum slip. sum + t5_actualDividends slip
                               + t5_interestFromCanadianSources slip
                               + t5_capitalGainsDividends slip)
                            0 (t5Slips inc);
          t3Income = foldl (\<lambda>sum slip. sum + t3_capitalGains slip * 0.5
                               + t3_eligibleDividends slip + t3_otherDividends slip
                               + t3_otherIncome slip)
                            0 (t3Slips inc);
          t4rspIncome = foldl (\<lambda>sum slip. sum + t4rsp_rrspIncome slip) 0 (t4rspSlips inc);
          t5008Gains = foldl (\<lambda>sum slip. sum + max 0 (t5008_proceeds slip - t5008_costBase slip) * 0.5)
                            0 (t5008Slips inc)
      in t4Income + t4aIncome + t4eIncome + t5Income + t3Income + t4rspIncome + t5008Gains
         + selfEmploymentIncome inc + otherIncome inc)"

definition calcTotalDeductions :: "Deductions \<Rightarrow> real" where
  "calcTotalDeductions ded =
     (let rrspDeductions = foldl (\<lambda>sum c. sum + rrsp_contributionAmount c) 0 (rrspContributions ded);
          homeOfficeDeduction =
            (if homeOfficeMethod ded = FlatRate then homeOfficeDays ded * 2 else 0)
      in rrspDeductions + childcareExpenses ded + homeOfficeDeduction
         + movingExpenses ded + professionalDues ded)"

definition calcTotalCredits :: "IncomeData \<Rightarrow> Deductions \<Rightarrow> real \<Rightarrow> real" where
  "calcTotalCredits inc ded totalIncome' =
     (let basicPersonalAmount = 15705;
          basicPersonalCredit = basicPersonalAmount * 0.15;
          donationCredits' = donationCredits (charitableDonations ded);
          medicalCredits =
            max 0 ((foldl (\<lambda>sum e. sum + med_amount e) 0 (medicalExpenses ded)
                     - totalIncome' * 0.03) * 0.15);
          tuitionCredits = foldl (\<lambda>sum slip. sum + t2202_eligibleTuitionFees slip * 0.15)
                            0 (t2202Slips inc);
          studentLoanCredit = studentLoanInterest ded * 0.15
      in basicPersonalCredit + donationCredits' + medicalCredits + tuitionCredits
         + studentLoanCredit)"

definition calcTotalPaid :: "IncomeData \<Rightarrow> real" where
  "calcTotalPaid inc =
     (let t4TaxPaid = foldl (\<lambda>sum slip. sum + t4_incomeTaxDeducted slip) 0 (t4Slips inc);
          t4aTaxPaid = foldl (\<lambda>sum slip. sum + t4a_incomeTaxDeducted slip) 0 (t4aSlips inc);
          t4eTaxPaid = foldl (\<lambda>sum slip. sum + t4e_incomeTaxDeducted slip) 0 (t4eSlips inc);
          t4rspTaxPaid = foldl (\<lambda>sum slip. sum + t4rsp_incomeTaxDeducted slip) 0 (t4rspSlips inc)
      in t4TaxPaid + t4aTaxPaid + t4eTaxPaid + t4rspTaxPaid)"

definition calculateSummary :: "TaxFiling option \<Rightarrow> TaxSummary" where
  "calculateSummary currentFiling =
     (case currentFiling of
        None \<Rightarrow>
          \<lparr> totalIncome = 0, totalDeductions = 0, taxableIncome = 0, federalTax = 0,
            provincialTax = 0, totalTax = 0, totalCredits = 0, totalPaid = 0,
            refundOrOwing = 0 \<rparr>
      | Some filing \<Rightarrow>
         (let inc = income filing;
              ded = deductions filing;
              totalIncome' = calcTotalIncome inc;
              totalDeductions' = calcTotalDeductions ded;
              taxableIncome' = max 0 (totalIncome' - totalDeductions');
              federalTax' = federalTaxOn taxableIncome';
              provincialTax' = provincialTaxOn taxableIncome';
              totalCredits' = calcTotalCredits inc ded totalIncome';
              totalTax' = max 0 (federalTax' + provincialTax' - totalCredits');
              totalPaid' = calcTotalPaid inc;
              refundOrOwing' = totalPaid' - totalTax'
          in \<lparr> totalIncome = totalIncome', totalDeductions = totalDeductions',
               taxableIncome = taxableIncome', federalTax = federalTax',
               provincialTax = provincialTax', totalTax = totalTax',
               totalCredits = totalCredits', totalPaid = totalPaid',
               refundOrOwing = refundOrOwing' \<rparr>))"

text \<open>\<^verbatim>\<open>createEmptyFiling\<close>; the identifier drawn from the generator is an argument.\<close>

definition createEmptyFiling :: "string \<Rightarrow> int \<Rightarrow> TaxFiling" where
  "createEmptyFiling newId y =
     \<lparr> filing_id = newId, year = y, status = NotStarted,
       personalInfo =
         \<lparr> firstName = [], lastName = [], sin = [], dateOfBirth = [], email = [], phone = [],
           province = [], maritalStatus = [],
           address = \<lparr> addr_street = [], addr_city = [], addr_province = [],
                       addr_postalCode = [] \<rparr> \<rparr>,
       income =
         \<lparr> t4Slips = [], t4aSlips = [], t4eSlips = [], t5Slips = [], t3Slips = [],
           t2202Slips = [], t4rspSlips = [], t5008Slips = [],
           selfEmploymentIncome = 0, otherIncome = 0 \<rparr>,
       deductions =
         \<lparr> rrspContributions = [], charitableDonations = [], medicalExpenses = [],
           childcareExpenses = 0, homeOfficeDays = 0, homeOfficeMethod = MethodUnset,
           movingExpenses = 0, studentLoanInterest = 0, professionalDues = 0 \<rparr>,
       summary = None, confirmationNumber = None \<rparr>"

section \<open>Cross-validation engine\<close>

text \<open>
  \<^verbatim>\<open>lib/validation/cross-check.ts\<close>. The engine calls into the JavaScript
  runtime and the identifier generator: the conversions \<^verbatim>\<open>Number\<close> and
  \<^verbatim>\<open>String\<close>, \<^verbatim>\<open>toLocaleString\<close>, \<^verbatim>\<open>toLowerCase\<close> and
  \<^verbatim>\<open>uuidv4\<close>. They are not code of the repository, so the model takes them as a
  record of functions and every statement below holds for all of them. The generator is
  the sequence of identifiers it yields, read through a counter that each function takes
  and returns.
\<close>

record Runtime =
  numberOfString :: "string \<Rightarrow> real option"
  stringOfNumber :: "real \<Rightarrow> string"
  toLocaleString :: "real \<Rightarrow> string"
  toLowerCase :: "string \<Rightarrow> string"
  uuidv4 :: "nat \<Rightarrow> string"

datatype DocumentType =
  T4 | T4A | T4E | T5 | T3 | T2202 | T4RSP | T5008
  | RrspReceipt | DonationReceipt | MedicalReceipt | Other

datatype SuggestionType = MissingDeduction | ValidationError | Optimization | Warning | Info

datatype Priority = High | Medium | Low

record TaxSuggestion =
  sg_id :: string
  sg_type :: SuggestionType
  priority :: Priority
  title :: string
  description :: string
  affectedFields :: "string list"
  actionLabel :: "string option"
  actionRoute :: "string option"
  estimatedImpact :: "real option"

text \<open>A field of an extracted document is a string or a number.\<close>

datatype FieldValue = NumV real | StrV string

record ExtractedDocumentData =
  documentType :: DocumentType
  doc_fields :: "string \<rightharpoonup> FieldValue"
  documentName :: "string option"

record ValidationResult =
  isValid :: bool
  discrepancies :: "TaxSuggestion list"
  matches :: "string list"

text \<open>
  \<^verbatim>\<open>Number(v) || 0\<close>: a missing field and a string that does not parse give NaN,
  which is falsy, so the result is 0.
\<close>

definition numberOrZero :: "Runtime \<Rightarrow> FieldValue option \<Rightarrow> real" where
  "numberOrZero rt v =
     (case v of
        None \<Rightarrow> 0
      | Some (NumV n) \<Rightarrow> n
      | Some (StrV s) \<Rightarrow> (case numberOfString rt s of None \<Rightarrow> 0 | Some n \<Rightarrow> n))"

text \<open>\<^verbatim>\<open>String(v || '')\<close>: a missing field, the number 0 and the empty string are falsy.\<close>

definition stringOrEmpty :: "Runtime \<Rightarrow> FieldValue option \<Rightarrow> string" where
  "stringOrEmpty rt v =
     (case v of
        None \<Rightarrow> []
      | Some (NumV n) \<Rightarrow> (if n = 0 then [] else stringOfNumber rt n)
      | Some (StrV s) \<Rightarrow> s)"

text \<open>\<^verbatim>\<open>s.includes(sub)\<close>: \<open>sub\<close> occurs in \<open>s\<close> as a contiguous run.\<close>

fun startsWith :: "string \<Rightarrow> string \<Rightarrow> bool" where
  "startsWith s [] = True"
| "startsWith [] (c # sub) = False"
| "startsWith (d # s) (c # sub) = (d = c \<and> startsWith s sub)"

fun includesStr :: "string \<Rightarrow> string \<Rightarrow> bool" where
  "includesStr [] sub = (sub = [])"
| "includesStr (d # s) sub = (startsWith (d # s) sub \<or> includesStr s sub)"

text \<open>\<^verbatim>\<open>parts.join(sep)\<close>\<close>

fun join :: "string \<Rightarrow> string list \<Rightarrow> string" where
  "join sep [] = []"
| "join sep [x] = x"
| "join sep (x # y # ys) = x @ sep @ join sep (y # ys)"

text \<open>
  Binary64 numbers. A finite binary64 value is an integer multiple of its quantum
  \<open>2 ^ q\<close>, with a multiplier below \<open>2 ^ 53\<close> in absolute value and \<open>q\<close> at least
  \<open>-1074\<close>. \<open>toDouble\<close> rounds a real to the nearest such value, ties to the even
  multiplier, as the conversion of a decimal literal and every arithmetic operation of the
  language do. The quantum of \<open>x\<close> comes from the bit length of \<open>\<bar>x\<bar>\<close> scaled by
  \<open>2 ^ 1074\<close>. Overflow to infinity (beyond about \<open>1.8 * 10 ^ 308\<close>) is outside the
  model.
\<close>

definition roundHalfEven :: "real \<Rightarrow> int" where
  "roundHalfEven r =
     (let f = \<lfloor>r\<rfloor>;
          d = r - of_int f
      in if d < 1 / 2 then f
         else if d > 1 / 2 then f + 1
         else if even f then f else f + 1)"

definition quantumExponent :: "real \<Rightarrow> int" where
  "quantumExponent x = max (bitlen \<lfloor>\<bar>x\<bar> * 2 ^ 1074\<rfloor> - 1127) (- 1074)"

definition toDouble :: "real \<Rightarrow> real" where
  "toDouble x =
     sgn x * (of_int (roundHalfEven (\<bar>x\<bar> / 2 powi quantumExponent x))
              * 2 powi quantumExponent x)"

text \<open>The two constants are the binary64 values of the literals 0.01 and 0.02.\<close>

definition NUMERIC_TOLERANCE :: real where
  "NUMERIC_TOLERANCE = toDouble 0.01"

definition PERCENTAGE_TOLERANCE :: real where
  "PERCENTAGE_TOLERANCE = toDouble 0.02"

text \<open>
  \<^verbatim>\<open>valuesMatch\<close>. The two arguments are the amounts; the source holds them as
  binary64 values, so they are read through \<open>toDouble\<close>, which leaves a binary64 value
  as it is. The subtraction and the division round their results; \<^verbatim>\<open>Math.abs\<close>,
  \<^verbatim>\<open>Math.max\<close> and the comparisons are exact.
\<close>

definition valuesMatch :: "real \<Rightarrow> real \<Rightarrow> bool" where
  "valuesMatch extracted entered =
     (let x = toDouble extracted;
          y = toDouble entered
      in if x = y then True
         else
           (let diff = \<bar>toDouble (x - y)\<bar>
            in if max x y < 100 then diff \<le> NUMERIC_TOLERANCE
               else toDouble (diff / max x y) \<le> PERCENTAGE_TOLERANCE))"

text \<open>
  \<^verbatim>\<open>findMatchingT4\<close>: the body of the loop computes the score of one slip, and the
  loop keeps the first slip of the highest score above 0.
\<close>

definition t4Score :: "Runtime \<Rightarrow> (string \<rightharpoonup> FieldValue) \<Rightarrow> T4Slip \<Rightarrow> nat" where
  "t4Score rt extractedData slip =
     (let extractedEmployer = toLowerCase rt (stringOrEmpty rt (extractedData ''employerName''));
          enteredEmployer = toLowerCase rt (t4_employerName slip);
          score1 =
            (if extractedEmployer \<noteq> [] \<and> enteredEmployer \<noteq> []
                \<and> (includesStr extractedEmployer enteredEmployer
                     \<or> includesStr enteredEmployer extractedEmployer)
             then 3 else 0);
          extractedIncome = numberOrZero rt (extractedData ''employmentIncome'');
          score2 =
            (if extractedIncome > 0 \<and> valuesMatch extractedIncome (t4_employmentIncome slip)
             then score1 + 2 else score1);
          extractedTax = numberOrZero rt (extractedData ''incomeTaxDeducted'');
          score3 =
            (if extractedTax > 0 \<and> valuesMatch extractedTax (t4_incomeTaxDeducted slip)
             then score2 + 2 else score2)
      in score3)"

fun findMatchingT4_loop ::
  "Runtime \<Rightarrow> (string \<rightharpoonup> FieldValue) \<Rightarrow> T4Slip list \<Rightarrow> T4Slip option \<times> nat
     \<Rightarrow> T4Slip option \<times> nat" where
  "findMatchingT4_loop rt extractedData [] best = best"
| "findMatchingT4_loop rt extractedData (slip # rest) (bestMatch, bestScore) =
     (let score = t4Score rt extractedData slip
      in if score > bestScore
         then findMatchingT4_loop rt extractedData rest (Some slip, score)
         else findMatchingT4_loop rt extractedData rest (bestMatch, bestScore))"

definition findMatchingT4 ::
  "Runtime \<Rightarrow> (string \<rightharpoonup> FieldValue) \<Rightarrow> T4Slip list \<Rightarrow> T4Slip option \<times> nat" where
  "findMatchingT4 rt extractedData slips = findMatchingT4_loop rt extractedData slips (None, 0)"

text \<open>
  Pieces of the message texts: the apostrophe, the separator \<^verbatim>\<open>'\n* '\<close> whose
  bullet is the three bytes of U+2022 in UTF-8, and the optional document name in
  parentheses (an empty name is falsy and gives nothing).
\<close>

definition apostrophe :: string where
  "apostrophe = [CHR 0x27]"

definition bulletSep :: string where
  "bulletSep = [CHR 0x0A, CHR 0xE2, CHR 0x80, CHR 0xA2, CHR 0x20]"

definition documentNameSuffix :: "string option \<Rightarrow> string" where
  "documentNameSuffix documentName' =
     (case documentName' of
        None \<Rightarrow> []
      | Some nm \<Rightarrow> (if nm = [] then [] else '' ('' @ nm @ '')''))"

text \<open>The discrepancy lines of \<^verbatim>\<open>validateT4\<close>, pushed in this order.\<close>

definition t4DiscrepancyLines ::
  "Runtime \<Rightarrow> real \<Rightarrow> real \<Rightarrow> real \<Rightarrow> real \<Rightarrow> T4Slip \<Rightarrow> string list" where
  "t4DiscrepancyLines rt extractedIncome extractedTax extractedCPP extractedEI matchedSlip =
     (if extractedIncome > 0 \<and> \<not> valuesMatch extractedIncome (t4_employmentIncome matchedSlip)
      then (let diff = extractedIncome - t4_employmentIncome matchedSlip
            in [''Employment income: Document shows $'' @ toLocaleString rt extractedIncome
                @ '', you entered $'' @ toLocaleString rt (t4_employmentIncome matchedSlip)
                @ '' (difference: $'' @ toLocaleString rt \<bar>diff\<bar> @ '')''])
      else [])
     @ (if extractedTax > 0 \<and> \<not> valuesMatch extractedTax (t4_incomeTaxDeducted matchedSlip)
        then (let diff = extractedTax - t4_incomeTaxDeducted matchedSlip
              in [''Tax deducted: Document shows $'' @ toLocaleString rt extractedTax
                  @ '', you entered $'' @ toLocaleString rt (t4_incomeTaxDeducted matchedSlip)
                  @ '' (difference: $'' @ toLocaleString rt \<bar>diff\<bar> @ '')''])
        else [])
     @ (if extractedCPP > 0 \<and> \<not> valuesMatch extractedCPP (t4_cppContributions matchedSlip)
        then [''CPP contributions: Document shows $'' @ toLocaleString rt extractedCPP
              @ '', you entered $'' @ toLocaleString rt (t4_cppContributions matchedSlip)]
        else [])
     @ (if extractedEI > 0 \<and> \<not> valuesMatch extractedEI (t4_eiPremiums matchedSlip)
        then [''EI premiums: Document shows $'' @ toLocaleString rt extractedEI
              @ '', you entered $'' @ toLocaleString rt (t4_eiPremiums matchedSlip)]
        else [])"

text \<open>
  The test \<^verbatim>\<open>matchScore >= 3 && matchedSlip\<close>: the slip when the score reaches 3
  and a slip was kept.
\<close>

definition confidentMatch :: "T4Slip option \<times> nat \<Rightarrow> T4Slip option" where
  "confidentMatch found = (if snd found \<ge> 3 then fst found else None)"

definition validateT4 ::
  "Runtime \<Rightarrow> (string \<rightharpoonup> FieldValue) \<Rightarrow> TaxFiling \<Rightarrow> string option \<Rightarrow> nat
     \<Rightarrow> TaxSuggestion list \<times> nat" where
  "validateT4 rt extractedData filing documentName' n =
     (let found = findMatchingT4 rt extractedData (t4Slips (income filing));
          extractedIncome = numberOrZero rt (extractedData ''employmentIncome'');
          extractedTax = numberOrZero rt (extractedData ''incomeTaxDeducted'');
          extractedCPP = numberOrZero rt (extractedData ''cppContributions'');
          extractedEI = numberOrZero rt (extractedData ''eiPremiums'')
      in case confidentMatch found of
           Some matchedSlip \<Rightarrow>
             (let lines = t4DiscrepancyLines rt extractedIncome extractedTax extractedCPP
                            extractedEI matchedSlip
              in if length lines > 0
                 then ([\<lparr> sg_id = uuidv4 rt n, sg_type = ValidationError, priority = High,
                          title = ''T4 Data Mismatch Detected'',
                          description =
                            ''The uploaded document'' @ documentNameSuffix documentName'
                            @ '' doesn'' @ apostrophe @ ''t match your entered T4 for ''
                            @ t4_employerName matchedSlip @ '':'' @ bulletSep
                            @ join bulletSep lines,
                          affectedFields = [''income.t4Slips''],
                          actionLabel = Some ''Review Income'',
                          actionRoute = Some ''/file/income'',
                          estimatedImpact = None \<rparr>], Suc n)
                 else ([], n))
         | None \<Rightarrow>
             (if extractedIncome > 0 \<and> length (t4Slips (income filing)) > 0
              then
                (case find (\<lambda>slip. valuesMatch extractedIncome (t4_employmentIncome slip))
                        (t4Slips (income filing)) of
                   Some similarIncomeSlip \<Rightarrow>
                     ([\<lparr> sg_id = uuidv4 rt n, sg_type = Warning, priority = Medium,
                         title = ''Possible Duplicate T4'',
                         description =
                           ''This T4 shows $'' @ toLocaleString rt extractedIncome
                           @ '' in employment income, which matches an existing T4 from ''
                           @ t4_employerName similarIncomeSlip
                           @ ''. Please verify this isn'' @ apostrophe
                           @ ''t a duplicate entry.'',
                         affectedFields = [''income.t4Slips''],
                         actionLabel = Some ''Review T4s'',
                         actionRoute = Some ''/file/income'',
                         estimatedImpact = None \<rparr>], Suc n)
                 | None \<Rightarrow>
                     ([\<lparr> sg_id = uuidv4 rt n, sg_type = Info, priority = Low,
                         title = ''New T4 Detected'',
                         description =
                           ''This document contains a T4 with $''
                           @ toLocaleString rt extractedIncome
                           @ '' in employment income that doesn'' @ apostrophe
                           @ ''t match any existing entries. Consider adding it to your return.'',
                         affectedFields = [''income.t4Slips''],
                         actionLabel = Some ''Add T4'',
                         actionRoute = Some ''/file/income'',
                         estimatedImpact = None \<rparr>], Suc n))
              else ([], n)))"

definition t5DiscrepancyLines :: "Runtime \<Rightarrow> real \<Rightarrow> real \<Rightarrow> T5Slip \<Rightarrow> string list" where
  "t5DiscrepancyLines rt extractedDividends extractedInterest matchedSlip =
     (if extractedDividends > 0
         \<and> \<not> valuesMatch extractedDividends (t5_actualDividends matchedSlip)
      then [''Dividends: Document shows $'' @ toLocaleString rt extractedDividends
            @ '', you entered $'' @ toLocaleString rt (t5_actualDividends matchedSlip)]
      else [])
     @ (if extractedInterest > 0
           \<and> \<not> valuesMatch extractedInterest (t5_interestFromCanadianSources matchedSlip)
        then [''Interest: Document shows $'' @ toLocaleString rt extractedInterest
              @ '', you entered $''
              @ toLocaleString rt (t5_interestFromCanadianSources matchedSlip)]
        else [])"

definition validateT5 ::
  "Runtime \<Rightarrow> (string \<rightharpoonup> FieldValue) \<Rightarrow> TaxFiling \<Rightarrow> string option \<Rightarrow> nat
     \<Rightarrow> TaxSuggestion list \<times> nat" where
  "validateT5 rt extractedData filing documentName' n =
     (let extractedDividends = numberOrZero rt (extractedData ''actualDividends'');
          extractedInterest = numberOrZero rt (extractedData ''interestFromCanadianSources'');
          totalExtracted = extractedDividends + extractedInterest
      in if totalExtracted = 0 then ([], n)
         else
           (case find (\<lambda>slip. valuesMatch totalExtracted
                                 (t5_actualDividends slip + t5_interestFromCanadianSources slip))
                   (t5Slips (income filing)) of
              Some matchedSlip \<Rightarrow>
                (let lines = t5DiscrepancyLines rt extractedDividends extractedInterest matchedSlip
                 in if length lines > 0
                    then ([\<lparr> sg_id = uuidv4 rt n, sg_type = ValidationError, priority = High,
                             title = ''T5 Data Mismatch Detected'',
                             description =
                               ''The uploaded investment slip'' @ documentNameSuffix documentName'
                               @ '' doesn'' @ apostrophe @ ''t match your entered data:''
                               @ bulletSep @ join bulletSep lines,
                             affectedFields = [''income.t5Slips''],
                             actionLabel = Some ''Review T5'',
                             actionRoute = Some ''/file/income'',
                             estimatedImpact = None \<rparr>], Suc n)
                    else ([], n))
            | None \<Rightarrow> ([], n)))"

definition validateRRSP ::
  "Runtime \<Rightarrow> (string \<rightharpoonup> FieldValue) \<Rightarrow> TaxFiling \<Rightarrow> string option \<Rightarrow> nat
     \<Rightarrow> TaxSuggestion list \<times> nat" where
  "validateRRSP rt extractedData filing documentName' n =
     (let extractedAmount = numberOrZero rt (extractedData ''contributionAmount'')
      in if extractedAmount = 0 then ([], n)
         else
           (let totalEntered = foldl (\<lambda>sum c. sum + rrsp_contributionAmount c) 0
                                 (rrspContributions (deductions filing));
                matchedContribution =
                  find (\<lambda>c. valuesMatch extractedAmount (rrsp_contributionAmount c))
                    (rrspContributions (deductions filing))
            in if matchedContribution = None \<and> totalEntered > 0
               then ([\<lparr> sg_id = uuidv4 rt n, sg_type = Info, priority = Medium,
                        title = ''Additional RRSP Contribution Found'',
                        description =
                          ''This receipt shows a $'' @ toLocaleString rt extractedAmount
                          @ '' RRSP contribution that may not be included in your current total of $''
                          @ toLocaleString rt totalEntered @ ''.'',
                        affectedFields = [''deductions.rrspContributions''],
                        actionLabel = Some ''Review RRSPs'',
                        actionRoute = Some ''/file/deductions'',
                        estimatedImpact = Some (extractedAmount * 0.25) \<rparr>], Suc n)
               else if matchedContribution = None \<and> totalEntered = 0
               then ([\<lparr> sg_id = uuidv4 rt n, sg_type = MissingDeduction, priority = High,
                        title = ''RRSP Contribution Not Claimed'',
                        description =
                          ''You uploaded an RRSP receipt for $''
                          @ toLocaleString rt extractedAmount
                          @ '' but haven'' @ apostrophe
                          @ ''t entered any RRSP contributions. Don'' @ apostrophe
                          @ ''t miss this deduction!'',
                        affectedFields = [''deductions.rrspContributions''],
                        actionLabel = Some ''Add RRSP'',
                        actionRoute = Some ''/file/deductions'',
                        estimatedImpact = Some (extractedAmount * 0.25) \<rparr>], Suc n)
               else ([], n)))"

definition validateDonation ::
  "Runtime \<Rightarrow> (string \<rightharpoonup> FieldValue) \<Rightarrow> TaxFiling \<Rightarrow> string option \<Rightarrow> nat
     \<Rightarrow> TaxSuggestion list \<times> nat" where
  "validateDonation rt extractedData filing documentName' n =
     (let extractedAmount = numberOrZero rt (extractedData ''donationAmount'')
      in if extractedAmount = 0 then ([], n)
         else
           (let totalEntered = foldl (\<lambda>sum d. sum + don_donationAmount d) 0
                                 (charitableDonations (deductions filing));
                matchedDonation =
                  find (\<lambda>d. valuesMatch extractedAmount (don_donationAmount d))
                    (charitableDonations (deductions filing))
            in if matchedDonation = None \<and> totalEntered = 0
               then ([\<lparr> sg_id = uuidv4 rt n, sg_type = MissingDeduction, priority = High,
                        title = ''Donation Not Claimed'',
                        description =
                          ''You uploaded a donation receipt for $''
                          @ toLocaleString rt extractedAmount
                          @ '' but haven'' @ apostrophe
                          @ ''t claimed any charitable donations.'',
                        affectedFields = [''deductions.charitableDonations''],
                        actionLabel = Some ''Add Donation'',
                        actionRoute = Some ''/file/deductions'',
                        estimatedImpact = None \<rparr>], Suc n)
               else ([], n)))"

definition crossCheckDocument ::
  "Runtime \<Rightarrow> ExtractedDocumentData \<Rightarrow> TaxFiling \<Rightarrow> nat \<Rightarrow> ValidationResult \<times> nat" where
  "crossCheckDocument rt extracted filing n =
     (let pushed =
            (case documentType extracted of
               T4 \<Rightarrow> validateT4 rt (doc_fields extracted) filing (documentName extracted) n
             | T5 \<Rightarrow> validateT5 rt (doc_fields extracted) filing (documentName extracted) n
             | RrspReceipt \<Rightarrow>
                 validateRRSP rt (doc_fields extracted) filing (documentName extracted) n
             | DonationReceipt \<Rightarrow>
                 validateDonation rt (doc_fields extracted) filing (documentName extracted) n
             | _ \<Rightarrow> ([], n))
      in (\<lparr> isValid = (length (filter (\<lambda>d. sg_type d = ValidationError) (fst pushed)) = 0),
            discrepancies = fst pushed,
            matches = [] \<rparr>,
          snd pushed))"

text \<open>
  \<^verbatim>\<open>validateAllDocuments\<close>: the loop over the documents appends each document's
  discrepancies to \<^verbatim>\<open>allSuggestions\<close>; the filter then runs over the result with the
  set \<^verbatim>\<open>seen\<close> of the titles met so far.
\<close>

fun allSuggestions_loop ::
  "Runtime \<Rightarrow> ExtractedDocumentData list \<Rightarrow> TaxFiling \<Rightarrow> TaxSuggestion list \<times> nat
     \<Rightarrow> TaxSuggestion list \<times> nat" where
  "allSuggestions_loop rt [] filing acc = acc"
| "allSuggestions_loop rt (doc # rest) filing (allSuggestions, n) =
     (let result = crossCheckDocument rt doc filing n
      in allSuggestions_loop rt rest filing
           (allSuggestions @ discrepancies (fst result), snd result))"

fun filterSeen :: "string set \<Rightarrow> TaxSuggestion list \<Rightarrow> TaxSuggestion list" where
  "filterSeen seen [] = []"
| "filterSeen seen (s # rest) =
     (if title s \<in> seen then filterSeen seen rest
      else s # filterSeen (insert (title s) seen) rest)"

definition validateAllDocuments ::
  "Runtime \<Rightarrow> ExtractedDocumentData list \<Rightarrow> TaxFiling \<Rightarrow> nat \<Rightarrow> TaxSuggestion list \<times> nat" where
  "validateAllDocuments rt extractedDocuments filing n =
     (let collected = allSuggestions_loop rt extractedDocuments filing ([], n)
      in (filterSeen {} (fst collected), snd collected))"

section \<open>Submission transformer\<close>

text \<open>
  \<^verbatim>\<open>NetfileSubmissionRequest\<close> of \<^verbatim>\<open>lib/netfile/types.ts\<close> and
  \<^verbatim>\<open>transformFilingToNetfile\<close>. Each nested object of the request is a record of
  its own.
\<close>

record NetfilePersonalInfo =
  nfp_sin :: string
  nfp_firstName :: string
  nfp_lastName :: string
  nfp_dateOfBirth :: string
  nfp_email :: string
  nfp_province :: string
  nfp_postalCode :: string

record NetfileIncome =
  nfi_totalEmploymentIncome :: real
  nfi_totalTaxWithheld :: real
  nfi_totalCPPContributions :: real
  nfi_totalEIPremiums :: real
  nfi_investmentIncome :: real
  nfi_selfEmploymentIncome :: real
  nfi_otherIncome :: real

record NetfileDeductions =
  nfd_rrspContributions :: real
  nfd_unionDues :: real
  nfd_childcareExpenses :: real
  nfd_movingExpenses :: real
  nfd_otherDeductions :: real

record NetfileCredits =
  nfc_basicPersonalAmount :: real
  nfc_charitableDonations :: real
  nfc_medicalExpenses :: real
  nfc_tuitionFees :: real
  nfc_studentLoanInterest :: real

record NetfileCalculated =
  nfk_totalIncome :: real
  nfk_netIncome :: real
  nfk_taxableIncome :: real
  nfk_federalTax :: real
  nfk_provincialTax :: real
  nfk_totalTax :: real
  nfk_totalCredits :: real
  nfk_refundOrOwing :: real

record NetfileSubmissionRequest =
  nf_filingId :: string
  nf_taxYear :: int
  nf_personalInfo :: NetfilePersonalInfo
  nf_income :: NetfileIncome
  nf_deductions :: NetfileDeductions
  nf_credits :: NetfileCredits
  nf_calculated :: NetfileCalculated

definition transformFilingToNetfile :: "TaxFiling \<Rightarrow> TaxSummary \<Rightarrow> NetfileSubmissionRequest" where
  "transformFilingToNetfile filing summary' =
     (let pinfo = personalInfo filing;
          inc = income filing;
          ded = deductions filing;
          totalEmploymentIncome =
            foldl (\<lambda>sum slip. sum + t4_employmentIncome slip) 0 (t4Slips inc);
          totalTaxWithheld =
            foldl (\<lambda>sum slip. sum + t4_incomeTaxDeducted slip) 0 (t4Slips inc)
            + foldl (\<lambda>sum slip. sum + t4a_incomeTaxDeducted slip) 0 (t4aSlips inc)
            + foldl (\<lambda>sum slip. sum + t4e_incomeTaxDeducted slip) 0 (t4eSlips inc);
          totalCPPContributions =
            foldl (\<lambda>sum slip. sum + t4_cppContributions slip) 0 (t4Slips inc);
          totalEIPremiums = foldl (\<lambda>sum slip. sum + t4_eiPremiums slip) 0 (t4Slips inc);
          investmentIncome =
            foldl (\<lambda>sum slip. sum + t5_actualDividends slip
                     + t5_interestFromCanadianSources slip) 0 (t5Slips inc)
            + foldl (\<lambda>sum slip. sum + t3_capitalGains slip * 0.5 + t3_eligibleDividends slip)
                0 (t3Slips inc);
          rrspContributions' =
            foldl (\<lambda>sum c. sum + rrsp_contributionAmount c) 0 (rrspContributions ded);
          unionDues = foldl (\<lambda>sum slip. sum + t4_unionDues slip) 0 (t4Slips inc);
          charitableDonations' =
            foldl (\<lambda>sum d. sum + don_donationAmount d) 0 (charitableDonations ded);
          medicalExpenses' = foldl (\<lambda>sum e. sum + med_amount e) 0 (medicalExpenses ded);
          tuitionFees =
            foldl (\<lambda>sum slip. sum + t2202_eligibleTuitionFees slip) 0 (t2202Slips inc)
      in \<lparr> nf_filingId = filing_id filing,
           nf_taxYear = year filing,
           nf_personalInfo =
             \<lparr> nfp_sin = sin pinfo, nfp_firstName = firstName pinfo,
               nfp_lastName = lastName pinfo, nfp_dateOfBirth = dateOfBirth pinfo,
               nfp_email = email pinfo, nfp_province = province pinfo,
               nfp_postalCode = addr_postalCode (address pinfo) \<rparr>,
           nf_income =
             \<lparr> nfi_totalEmploymentIncome = totalEmploymentIncome,
               nfi_totalTaxWithheld = totalTaxWithheld,
               nfi_totalCPPContributions = totalCPPContributions,
               nfi_totalEIPremiums = totalEIPremiums,
               nfi_investmentIncome = investmentIncome,
               nfi_selfEmploymentIncome = selfEmploymentIncome inc,
               nfi_otherIncome = otherIncome inc \<rparr>,
           nf_deductions =
             \<lparr> nfd_rrspContributions = rrspContributions',
               nfd_unionDues = unionDues,
               nfd_childcareExpenses = childcareExpenses ded,
               nfd_movingExpenses = movingExpenses ded,
               nfd_otherDeductions = professionalDues ded \<rparr>,
           nf_credits =
             \<lparr> nfc_basicPersonalAmount = 15705,
               nfc_charitableDonations = charitableDonations',
               nfc_medicalExpenses = medicalExpenses',
               nfc_tuitionFees = tuitionFees,
               nfc_studentLoanInterest = studentLoanInterest ded \<rparr>,
           nf_calculated =
             \<lparr> nfk_totalIncome = totalIncome summary',
               nfk_netIncome = totalIncome summary' - totalDeductions summary',
               nfk_taxableIncome = taxableIncome summary',
               nfk_federalTax = federalTax summary',
               nfk_provincialTax = provincialTax summary',
               nfk_totalTax = totalTax summary',
               nfk_totalCredits = totalCredits summary',
               nfk_refundOrOwing = refundOrOwing summary' \<rparr> \<rparr>)"

section \<open>Statements of the specification\<close>

text \<open>
  The definitions of this section follow the words of the specification, to be compared
  with the code above.
\<close>

text \<open>
  The federal schedule as the specification gives it: four thresholds, five marginal
  rates. The bracket of an income is the number of thresholds strictly below it.
\<close>

definition specFederalThresholds :: "real list" where
  "specFederalThresholds = [55867, 111733, 173205, 246752]"

definition specFederalRates :: "real list" where
  "specFederalRates = [0.15, 0.205, 0.26, 0.29, 0.33]"

definition specBracketOf :: "real list \<Rightarrow> real \<Rightarrow> nat" where
  "specBracketOf thresholds ti = length (filter (\<lambda>t. t < ti) thresholds)"

text \<open>
  The two-tier donation credit: the first 200 units at 15 percent, the remainder above 200
  at 29 percent.
\<close>

definition specDonationTwoTier :: "real \<Rightarrow> real" where
  "specDonationTwoTier amount = min amount 200 * 0.15 + max 0 (amount - 200) * 0.29"

text \<open>
  Deduplication by title, first occurrence kept: the head stays, and every later
  suggestion of the head's title goes.
\<close>

fun specKeepFirstByTitle :: "TaxSuggestion list \<Rightarrow> TaxSuggestion list" where
  "specKeepFirstByTitle [] = []"
| "specKeepFirstByTitle (s # rest) =
     s # specKeepFirstByTitle (filter (\<lambda>r. title r \<noteq> title s) rest)"

text \<open>A suggestion without the identifier the generator gave it.\<close>

definition withoutId :: "TaxSuggestion \<Rightarrow> TaxSuggestion" where
  "withoutId s = s\<lparr>sg_id := []\<rparr>"

section \<open>Sample inputs\<close>

text \<open>
  A runtime and a few documents and slips on which the functions are evaluated. The
  sample runtime lowers the ASCII letters and leaves every other character; the sample
  documents carry their amounts as numbers, so no string is converted to a number;
  amounts are formatted as a fixed placeholder, which reaches the descriptions only.
\<close>

definition asciiLowerChar :: "char \<Rightarrow> char" where
  "asciiLowerChar c =
     (case map_of (zip ''ABCDEFGHIJKLMNOPQRSTUVWXYZ'' ''abcdefghijklmnopqrstuvwxyz'') c of
        None \<Rightarrow> c
      | Some l \<Rightarrow> l)"

definition sampleRuntime :: Runtime where
  "sampleRuntime =
     \<lparr> numberOfString = (\<lambda>s. None),
       stringOfNumber = (\<lambda>r. ''#''),
       toLocaleString = (\<lambda>r. ''#''),
       toLowerCase = map asciiLowerChar,
       uuidv4 = (\<lambda>k. replicate (Suc k) (CHR ''u'')) \<rparr>"

definition sampleFiling :: TaxFiling where
  "sampleFiling = createEmptyFiling ''filing-1'' 2024"

definition sampleT4Slip :: "string \<Rightarrow> real \<Rightarrow> real \<Rightarrow> T4Slip" where
  "sampleT4Slip employer incomeAmount taxAmount =
     \<lparr> t4_id = ''t4-1'', t4_employerName = employer, t4_employerAddress = [],
       t4_employmentIncome = incomeAmount, t4_incomeTaxDeducted = taxAmount,
       t4_cppContributions = 0, t4_eiPremiums = 0, t4_rppContributions = 0,
       t4_unionDues = 0, t4_charitableDonations = 0 \<rparr>"

definition sampleT4RSPSlip :: "real \<Rightarrow> real \<Rightarrow> T4RSPSlip" where
  "sampleT4RSPSlip incomeAmount taxAmount =
     \<lparr> t4rsp_id = ''t4rsp-1'', t4rsp_payerName = ''bank'',
       t4rsp_rrspIncome = incomeAmount, t4rsp_incomeTaxDeducted = taxAmount \<rparr>"

definition withT4Slips :: "T4Slip list \<Rightarrow> TaxFiling \<Rightarrow> TaxFiling" where
  "withT4Slips slips filing = filing\<lparr>income := (income filing)\<lparr>t4Slips := slips\<rparr>\<rparr>"

definition withT4RSPSlips :: "T4RSPSlip list \<Rightarrow> TaxFiling \<Rightarrow> TaxFiling" where
  "withT4RSPSlips slips filing = filing\<lparr>income := (income filing)\<lparr>t4rspSlips := slips\<rparr>\<rparr>"

definition sampleDocument :: "DocumentType \<Rightarrow> string \<Rightarrow> real \<Rightarrow> ExtractedDocumentData" where
  "sampleDocument ty field amount =
     \<lparr> documentType = ty, doc_fields = [field \<mapsto> NumV amount], documentName = None \<rparr>"

section \<open>Properties of the calculation engine\<close>

lemma foldl_plus_sum_list:
  "foldl (\<lambda>sum x. sum + f x) a xs = (a::real) + sum_list (map f xs)"
  by (induction xs arbitrary: a) (simp_all add: add.assoc)

text \<open>
  Claim C1. For every filing (and for the state with no current filing) the summary
  returned by \<^verbatim>\<open>calculateSummary\<close> satisfies
  \<open>totalTax = max 0 (federalTax + provincialTax - totalCredits)\<close> and
  \<open>refundOrOwing = totalPaid - totalTax\<close>, and \<open>totalTax\<close> is never negative.
\<close>

theorem calculateSummary_invariant:
  "totalTax (calculateSummary cf)
     = max 0 (federalTax (calculateSummary cf) + provincialTax (calculateSummary cf)
              - totalCredits (calculateSummary cf))
   \<and> refundOrOwing (calculateSummary cf)
     = totalPaid (calculateSummary cf) - totalTax (calculateSummary cf)
   \<and> 0 \<le> totalTax (calculateSummary cf)"
  by (cases cf) (simp_all add: calculateSummary_def Let_def)

subsection \<open>The summary on a filing, field by field\<close>

lemma calculateSummary_fields:
  "totalIncome (calculateSummary (Some f)) = calcTotalIncome (income f)"
  "totalDeductions (calculateSummary (Some f)) = calcTotalDeductions (deductions f)"
  "taxableIncome (calculateSummary (Some f))
     = max 0 (calcTotalIncome (income f) - calcTotalDeductions (deductions f))"
  "federalTax (calculateSummary (Some f)) = federalTaxOn (taxableIncome (calculateSummary (Some f)))"
  "provincialTax (calculateSummary (Some f))
     = provincialTaxOn (taxableIncome (calculateSummary (Some f)))"
  "totalCredits (calculateSummary (Some f))
     = calcTotalCredits (income f) (deductions f) (calcTotalIncome (income f))"
  "totalTax (calculateSummary (Some f))
     = max 0 (federalTax (calculateSummary (Some f)) + provincialTax (calculateSummary (Some f))
              - totalCredits (calculateSummary (Some f)))"
  "totalPaid (calculateSummary (Some f)) = calcTotalPaid (income f)"
  "refundOrOwing (calculateSummary (Some f))
     = totalPaid (calculateSummary (Some f)) - totalTax (calculateSummary (Some f))"
  by (simp_all add: calculateSummary_def Let_def)

lemma sample_one_t4:
  "calcTotalIncome (income (withT4Slips [sampleT4Slip e a w] sampleFiling)) = a"
  "calcTotalPaid (income (withT4Slips [sampleT4Slip e a w] sampleFiling)) = w"
  "calcTotalDeductions (deductions (withT4Slips slips sampleFiling)) = 0"
  "calcTotalCredits (income (withT4Slips slips sampleFiling))
     (deductions (withT4Slips slips sampleFiling)) 50000 = 2355.75"
  by (simp_all add: calcTotalIncome_def calcTotalPaid_def calcTotalDeductions_def
      calcTotalCredits_def donationCredits_def withT4Slips_def sampleT4Slip_def
      sampleFiling_def createEmptyFiling_def)

text \<open>
  The scenario of the specification: one employment slip of income 50000 and tax withheld
  8000, nothing else. The refund is 330.75.
\<close>

lemma scenario_single_employment_slip:
  "calculateSummary (Some (withT4Slips [sampleT4Slip ''Acme Corporation'' 50000 8000] sampleFiling))
     = \<lparr> totalIncome = 50000, totalDeductions = 0, taxableIncome = 50000, federalTax = 7500,
         provincialTax = 2525, totalTax = 7669.25, totalCredits = 2355.75, totalPaid = 8000,
         refundOrOwing = 330.75 \<rparr>"
  by (rule TaxSummary.equality)
     (simp_all add: calculateSummary_fields sample_one_t4
        federalTaxOn_def federalBracket1_def provincialTaxOn_def provincialBracket1_def)

subsection \<open>Bracket schedules\<close>

lemma federal_marginal_rate:
  "0 < x \<Longrightarrow> x \<le> y
   \<Longrightarrow> specBracketOf specFederalThresholds x = specBracketOf specFederalThresholds y
   \<Longrightarrow> federalTaxOn y - federalTaxOn x
       = specFederalRates ! specBracketOf specFederalThresholds x * (y - x)"
  unfolding specBracketOf_def specFederalThresholds_def specFederalRates_def federalTaxOn_def
    federalBracket1_def federalBracket2_def federalBracket3_def federalBracket4_def
    federalBracket5_def
  by (simp split: if_splits add: algebra_simps)

lemma calculateSummary_federalTax:
  "federalTax (calculateSummary (Some filing))
     = federalTaxOn (taxableIncome (calculateSummary (Some filing)))"
  by (simp add: calculateSummary_def Let_def)

lemma taxableIncome_one_t4:
  "taxableIncome (calculateSummary (Some (withT4Slips [sampleT4Slip e a w] sampleFiling))) = max 0 a"
  by (simp add: calculateSummary_def Let_def calcTotalIncome_def calcTotalDeductions_def
      withT4Slips_def sampleT4Slip_def sampleFiling_def createEmptyFiling_def)

text \<open>
  Claim C2, bracket continuity. At each boundary the formula of the bracket below and the
  formula of the bracket above are evaluated at the boundary. The two agree at the
  provincial boundary 220000 only; at the seven other boundaries they differ, because the
  bases 8380, 19833, 35816, 57144, 2598, 7307 and 12563 of the source are not the tax of
  the bracket below at the threshold. So the federal tax on 55867.1 is lower than the
  federal tax on 55867.
\<close>

theorem bracket_boundaries_jump:
  "federalBracket1 55867 - federalBracket2 55867 = 0.05
   \<and> federalBracket2 111733 - federalBracket3 111733 = - 0.47
   \<and> federalBracket3 173205 - federalBracket4 173205 = - 0.28
   \<and> federalBracket4 246752 - federalBracket5 246752 = 0.63
   \<and> provincialBracket1 51446 - provincialBracket2 51446 = 0.023
   \<and> provincialBracket2 102894 - provincialBracket3 102894 = - 1.508
   \<and> provincialBracket3 150000 - provincialBracket4 150000 = 1.0296
   \<and> provincialBracket4 220000 - provincialBracket5 220000 = 0
   \<and> federalTaxOn 55867 = 8380.05
   \<and> federalTaxOn 55867.1 = 8380.0205
   \<and> federalTaxOn 55867.1 < federalTaxOn 55867
   \<and> federalTax (calculateSummary
         (Some (withT4Slips [sampleT4Slip ''acme'' 55867 0] sampleFiling))) = 8380.05
   \<and> federalTax (calculateSummary
         (Some (withT4Slips [sampleT4Slip ''acme'' 55867.1 0] sampleFiling))) = 8380.0205"
  by (simp add: federalBracket1_def federalBracket2_def federalBracket3_def federalBracket4_def
      federalBracket5_def provincialBracket1_def provincialBracket2_def provincialBracket3_def
      provincialBracket4_def provincialBracket5_def federalTaxOn_def
      calculateSummary_federalTax taxableIncome_one_t4)

text \<open>
  Claim C3. The federal tax of \<^verbatim>\<open>calculateSummary\<close> is the five-bracket schedule on
  the taxable income: zero up to 0, and in each bracket the base at the lower threshold
  plus the marginal rate on the income above it, with the thresholds 55867, 111733, 173205,
  246752, the rates 15, 20.5, 26, 29, 33 percent and the bases 0, 8380, 19833, 35816,
  57144. Inside one bracket the tax grows at the bracket's rate. At 70000 the tax is
  \<open>8380 + (70000 - 55867) * 0.205 = 11277.265\<close>.
\<close>

theorem federalTax_schedule:
  "(ti \<le> 0 \<longrightarrow> federalTaxOn ti = 0)
   \<and> (0 < x \<and> x \<le> y
        \<and> specBracketOf specFederalThresholds x = specBracketOf specFederalThresholds y
      \<longrightarrow> federalTaxOn y - federalTaxOn x
            = specFederalRates ! specBracketOf specFederalThresholds x * (y - x))
   \<and> (0 < ti \<and> ti \<le> 55867 \<longrightarrow> federalTaxOn ti = ti * 0.15)
   \<and> (55867 < ti \<and> ti \<le> 111733 \<longrightarrow> federalTaxOn ti = 8380 + (ti - 55867) * 0.205)
   \<and> (111733 < ti \<and> ti \<le> 173205 \<longrightarrow> federalTaxOn ti = 19833 + (ti - 111733) * 0.26)
   \<and> (173205 < ti \<and> ti \<le> 246752 \<longrightarrow> federalTaxOn ti = 35816 + (ti - 173205) * 0.29)
   \<and> (246752 < ti \<longrightarrow> federalTaxOn ti = 57144 + (ti - 246752) * 0.33)
   \<and> federalTaxOn 70000 = 8380 + (70000 - 55867) * 0.205
   \<and> federalTaxOn 70000 = 11277.265
   \<and> federalTax (calculateSummary (Some filing))
       = federalTaxOn (taxableIncome (calculateSummary (Some filing)))"
proof -
  have a: "ti \<le> 0 \<longrightarrow> federalTaxOn ti = 0"
    by (simp add: federalTaxOn_def)
  have b: "0 < ti \<and> ti \<le> 55867 \<longrightarrow> federalTaxOn ti = ti * 0.15"
    by (simp add: federalTaxOn_def federalBracket1_def)
  have c: "55867 < ti \<and> ti \<le> 111733 \<longrightarrow> federalTaxOn ti = 8380 + (ti - 55867) * 0.205"
    by (simp add: federalTaxOn_def federalBracket2_def)
  have c3: "111733 < ti \<and> ti \<le> 173205 \<longrightarrow> federalTaxOn ti = 19833 + (ti - 111733) * 0.26"
    by (simp add: federalTaxOn_def federalBracket3_def)
  have c4: "173205 < ti \<and> ti \<le> 246752 \<longrightarrow> federalTaxOn ti = 35816 + (ti - 173205) * 0.29"
    by (simp add: federalTaxOn_def federalBracket4_def)
  have c5: "246752 < ti \<longrightarrow> federalTaxOn ti = 57144 + (ti - 246752) * 0.33"
    by (simp add: federalTaxOn_def federalBracket5_def)
  have d: "federalTaxOn 70000 = 8380 + (70000 - 55867) * 0.205" "federalTaxOn 70000 = 11277.265"
    by (simp_all add: federalTaxOn_def federalBracket2_def)
  show ?thesis
    using a b c c3 c4 c5 d federal_marginal_rate [of x y] calculateSummary_federalTax [of filing]
    by blast
qed

theorem federalTax_schedule_witness:
  "federalTaxOn (- 5) = 0
   \<and> federalTaxOn 70000 - federalTaxOn 60000 = 0.205 * (70000 - 60000)
   \<and> federalTaxOn 50000 = 7500
   \<and> federalTaxOn 100000 = 8380 + (100000 - 55867) * 0.205
   \<and> federalTaxOn 150000 = 19833 + (150000 - 111733) * 0.26
   \<and> federalTaxOn 200000 = 35816 + (200000 - 173205) * 0.29
   \<and> federalTaxOn 300000 = 57144 + (300000 - 246752) * 0.33"
  using federalTax_schedule [where ti = "- 5" and x = 60000 and y = 70000]
    federalTax_schedule [where ti = 50000 and x = 60000 and y = 70000]
    federalTax_schedule [where ti = 100000 and x = 60000 and y = 70000]
    federalTax_schedule [where ti = 150000 and x = 60000 and y = 70000]
    federalTax_schedule [where ti = 200000 and x = 60000 and y = 70000]
    federalTax_schedule [where ti = 300000 and x = 60000 and y = 70000]
  by (simp add: specBracketOf_def specFederalThresholds_def specFederalRates_def)

subsection \<open>Donation credit\<close>

lemma foldl_donationStep:
  "foldl donationStep a ds
     = a + sum_list (map (\<lambda>d. specDonationTwoTier (don_donationAmount d)) ds)"
  by (induction ds arbitrary: a)
     (auto simp: donationStep_def specDonationTwoTier_def Let_def min_def max_def)

text \<open>
  Claim C5. The donation credit is the sum over the donation records of the two-tier
  amount of each record (200 units at 15 percent, the remainder at 29 percent); one record
  of 200 gives 30 and one record of 300 gives 59. The credit enters the total credits as
  it is.
\<close>

theorem donationCredits_two_tier:
  "donationCredits ds = sum_list (map (\<lambda>d. specDonationTwoTier (don_donationAmount d)) ds)
   \<and> donationCredits [d\<lparr>don_donationAmount := 200\<rparr>] = 30
   \<and> donationCredits [d\<lparr>don_donationAmount := 300\<rparr>] = 59
   \<and> calcTotalCredits inc ded ti
       = calcTotalCredits inc (ded\<lparr>charitableDonations := []\<rparr>) ti
         + donationCredits (charitableDonations ded)"
proof -
  have "donationCredits ds = sum_list (map (\<lambda>d. specDonationTwoTier (don_donationAmount d)) ds)"
    by (simp add: donationCredits_def foldl_donationStep)
  moreover have "donationCredits [d\<lparr>don_donationAmount := 200\<rparr>] = 30"
    by (simp add: donationCredits_def donationStep_def)
  moreover have "donationCredits [d\<lparr>don_donationAmount := 300\<rparr>] = 59"
    by (simp add: donationCredits_def donationStep_def)
  moreover have "calcTotalCredits inc ded ti
       = calcTotalCredits inc (ded\<lparr>charitableDonations := []\<rparr>) ti
         + donationCredits (charitableDonations ded)"
    by (simp add: calcTotalCredits_def Let_def donationCredits_def)
  ultimately show ?thesis by blast
qed

section \<open>Properties of the cross-validation engine\<close>

subsection \<open>Numeric tolerance\<close>

text \<open>
  Evaluating \<open>toDouble\<close>: when \<open>\<bar>x\<bar> * 2 ^ k\<close> lies between \<open>2 ^ 52\<close> and
  \<open>2 ^ 53\<close>, the quantum of \<open>x\<close> is \<open>2 ^ - k\<close>, and \<open>toDouble x\<close> is the
  multiple \<open>n / 2 ^ k\<close> for the integer \<open>n\<close> within a half of \<open>\<bar>x\<bar> * 2 ^ k\<close>.
\<close>

lemma roundHalfEven_near:
  assumes "\<bar>r - of_int n\<bar> < 1 / 2"
  shows "roundHalfEven r = n"
proof (cases "of_int n \<le> r")
  case True
  with assms have "\<lfloor>r\<rfloor> = n" by (intro floor_unique) auto
  with assms True show ?thesis by (simp add: roundHalfEven_def Let_def)
next
  case False
  with assms have "\<lfloor>r\<rfloor> = n - 1" by (intro floor_unique) auto
  with assms False show ?thesis by (simp add: roundHalfEven_def Let_def)
qed

lemma quantumExponent_eq:
  fixes k :: nat
  assumes "k \<le> 1074" and "2 ^ 52 \<le> \<bar>x\<bar> * 2 ^ k" and "\<bar>x\<bar> * 2 ^ k < 2 ^ 53"
  shows "quantumExponent x = - int k"
proof -
  define m where "m = 1074 - k"
  have e: "(1074::nat) = k + m"
    using assms(1) by (simp add: m_def)
  have "(2::real) ^ 52 * 2 ^ m \<le> (\<bar>x\<bar> * 2 ^ k) * 2 ^ m"
    using assms(2) by (intro mult_right_mono) simp_all
  then have lo: "of_int (2 ^ (52 + m)) \<le> \<bar>x\<bar> * 2 ^ (k + m)"
    by (simp add: power_add mult.assoc)
  have "(\<bar>x\<bar> * 2 ^ k) * 2 ^ m < (2::real) ^ 53 * 2 ^ m"
    using assms(3) by (intro mult_strict_right_mono) simp_all
  then have hi: "\<bar>x\<bar> * 2 ^ (k + m) < of_int (2 ^ (53 + m))"
    by (simp add: power_add mult.assoc)
  let ?N = "\<lfloor>\<bar>x\<bar> * 2 ^ (k + m)\<rfloor>"
  from lo have Nlo: "2 ^ (52 + m) \<le> ?N" by (simp only: le_floor_iff)
  from hi have Nhi: "?N < 2 ^ (53 + m)" by (simp only: floor_less_iff)
  have "bitlen ?N \<le> int (53 + m)"
    using Nhi by (simp add: bitlen_le_iff_power nat_add_distrib)
  moreover have "int (53 + m) \<le> bitlen ?N"
    using Nlo by (simp add: bitlen_ge_iff_power nat_add_distrib)
  ultimately have B: "bitlen ?N = int (53 + m)" by simp
  have "quantumExponent x = max (bitlen ?N - 1127) (- 1074)"
    unfolding quantumExponent_def by (subst e) (rule refl)
  also have "\<dots> = - int k"
    unfolding B using assms(1) by (simp add: m_def)
  finally show ?thesis .
qed

lemma toDouble_value:
  fixes k :: nat
  assumes "k \<le> 1074" and "2 ^ 52 \<le> \<bar>x\<bar> * 2 ^ k" and "\<bar>x\<bar> * 2 ^ k < 2 ^ 53"
    and "\<bar>\<bar>x\<bar> * 2 ^ k - of_int n\<bar> < 1 / 2"
  shows "toDouble x = sgn x * (of_int n / 2 ^ k)"
proof -
  have q: "quantumExponent x = - int k"
    using assms(1-3) by (rule quantumExponent_eq)
  have p: "(2::real) powi (- int k) = 1 / 2 ^ k"
    by (simp add: power_int_minus_divide)
  show ?thesis
    using roundHalfEven_near [OF assms(4)] by (simp add: toDouble_def q p)
qed

lemma toDouble_zero: "toDouble 0 = 0"
  by (simp add: toDouble_def)

lemma toDouble_minus: "toDouble (- x) = - toDouble x"
  by (simp add: toDouble_def quantumExponent_def)


lemma toDouble_tolerances:
  "toDouble 0.01 = 5764607523034235 / 2 ^ 59"
  "toDouble 0.02 = 5764607523034235 / 2 ^ 58"
  using toDouble_value [of 59 "0.01" 5764607523034235]
    toDouble_value [of 58 "0.02" 5764607523034235]
  by simp_all

lemma valuesMatch_same: "valuesMatch a a"
  by (simp add: valuesMatch_def)





lemma valuesMatch_50000_40000: "valuesMatch 50000 40000 = False"
proof -
  have x: "toDouble 50000 = 50000"
    using toDouble_value [of 37 "50000" 6871947673600000] by simp
  have y: "toDouble 40000 = 40000"
    using toDouble_value [of 37 "40000" 5497558138880000] by simp
  have d: "toDouble (50000 - 40000) = 10000"
    using toDouble_value [of 39 "50000 - 40000" 5497558138880000] by simp
  have q: "toDouble (\<bar>10000\<bar> / max 50000 40000) = 7205759403792794 / 2 ^ 55"
    using toDouble_value [of 55 "\<bar>10000\<bar> / max 50000 40000" 7205759403792794] by simp
  show ?thesis
    by (simp only: valuesMatch_def Let_def NUMERIC_TOLERANCE_def PERCENTAGE_TOLERANCE_def
        x y d q toDouble_tolerances) simp
qed

lemma valuesMatch_8500_8000: "valuesMatch 8500 8000 = False"
proof -
  have x: "toDouble 8500 = 8500"
    using toDouble_value [of 39 "8500" 4672924418048000] by simp
  have y: "toDouble 8000 = 8000"
    using toDouble_value [of 40 "8000" 8796093022208000] by simp
  have d: "toDouble (8500 - 8000) = 500"
    using toDouble_value [of 44 "8500 - 8000" 8796093022208000] by simp
  have q: "toDouble (\<bar>500\<bar> / max 8500 8000) = 8477364004462110 / 2 ^ 57"
    using toDouble_value [of 57 "\<bar>500\<bar> / max 8500 8000" 8477364004462110] by simp
  show ?thesis
    by (simp only: valuesMatch_def Let_def NUMERIC_TOLERANCE_def PERCENTAGE_TOLERANCE_def
        x y d q toDouble_tolerances) simp
qed


text \<open>
  Claim C8. \<^verbatim>\<open>valuesMatch\<close> is reflexive and symmetric.
\<close>

theorem valuesMatch_refl_sym:
  "valuesMatch x x \<and> valuesMatch a b = valuesMatch b a"
proof -
  have "\<bar>toDouble (toDouble b - toDouble a)\<bar> = \<bar>toDouble (toDouble a - toDouble b)\<bar>"
    using toDouble_minus [of "toDouble a - toDouble b"] by simp
  then show ?thesis
    by (simp add: valuesMatch_def Let_def max.commute eq_commute)
qed

subsection \<open>A matched slip with one discrepancy\<close>

text \<open>
  The cross-check scenario of the specification: the extracted employer "Acme Corp" is
  contained in the entered "Acme Corporation" (score 3) and the incomes match (score 2), so
  the slip is a confident match; the tax deducted differs (8500 against 8000) and the
  result is one validation error that lists the tax deducted only.
\<close>

lemma t4Score_acme:
  "t4Score sampleRuntime
      [''employerName'' \<mapsto> StrV ''Acme Corp'', ''employmentIncome'' \<mapsto> NumV 50000,
       ''incomeTaxDeducted'' \<mapsto> NumV 8500]
      (sampleT4Slip ''Acme Corporation'' 50000 8000) = 5"
  by (simp add: t4Score_def sampleRuntime_def asciiLowerChar_def stringOrEmpty_def numberOrZero_def
      sampleT4Slip_def valuesMatch_same valuesMatch_8500_8000 Let_def)

lemma scenario_tax_deducted_mismatch:
  "map (\<lambda>s. (sg_type s, priority s, title s, description s))
     (discrepancies (fst (crossCheckDocument sampleRuntime
        \<lparr> documentType = T4,
          doc_fields = [''employerName'' \<mapsto> StrV ''Acme Corp'',
                        ''employmentIncome'' \<mapsto> NumV 50000,
                        ''incomeTaxDeducted'' \<mapsto> NumV 8500],
          documentName = None \<rparr>
        (withT4Slips [sampleT4Slip ''Acme Corporation'' 50000 8000] sampleFiling) 0)))
   = [(ValidationError, High, ''T4 Data Mismatch Detected'',
       ''The uploaded document doesn'' @ apostrophe @ ''t match your entered T4 for Acme Corporation:''
       @ bulletSep @ ''Tax deducted: Document shows $#, you entered $# (difference: $#)'')]"
proof -
  let ?fields = "[''employerName'' \<mapsto> StrV ''Acme Corp'', ''employmentIncome'' \<mapsto> NumV 50000,
       ''incomeTaxDeducted'' \<mapsto> NumV 8500]"
  let ?slip = "sampleT4Slip ''Acme Corporation'' 50000 8000"
  have found: "findMatchingT4 sampleRuntime ?fields [?slip] = (Some ?slip, 5)"
    using t4Score_acme by (simp add: findMatchingT4_def)
  have lines: "t4DiscrepancyLines sampleRuntime 50000 8500 0 0 ?slip
      = [''Tax deducted: Document shows $#, you entered $# (difference: $#)'']"
    by (simp add: t4DiscrepancyLines_def sampleT4Slip_def sampleRuntime_def valuesMatch_same
        valuesMatch_8500_8000 Let_def)
  have slips: "t4Slips (income (withT4Slips [?slip] sampleFiling)) = [?slip]"
    by (simp add: withT4Slips_def)
  have name: "t4_employerName ?slip = ''Acme Corporation''"
    by (simp add: sampleT4Slip_def)
  show ?thesis
    by (simp add: crossCheckDocument_def validateT4_def slips found lines name confidentMatch_def
        documentNameSuffix_def numberOrZero_def Let_def)
qed

subsection \<open>Document types without a validator\<close>

text \<open>
  Claim C9. For a document whose type is none of t4, t5, rrsp-receipt and donation-receipt,
  \<^verbatim>\<open>crossCheckDocument\<close> returns \<open>isValid = True\<close> with no discrepancy and no
  match, and draws no identifier.
\<close>

theorem crossCheckDocument_other_types:
  "documentType extracted \<notin> {T4, T5, RrspReceipt, DonationReceipt}
   \<Longrightarrow> crossCheckDocument rt extracted filing n
       = (\<lparr> isValid = True, discrepancies = [], matches = [] \<rparr>, n)"
  by (cases "documentType extracted") (simp_all add: crossCheckDocument_def)

theorem crossCheckDocument_other_types_witness:
  "documentType (sampleDocument T4A ''pensionIncome'' 1200) \<notin> {T4, T5, RrspReceipt, DonationReceipt}
   \<and> crossCheckDocument sampleRuntime (sampleDocument T4A ''pensionIncome'' 1200) sampleFiling 0
       = (\<lparr> isValid = True, discrepancies = [], matches = [] \<rparr>, 0)"
  using crossCheckDocument_other_types
          [of "sampleDocument T4A ''pensionIncome'' 1200" sampleRuntime sampleFiling 0]
  by (simp add: sampleDocument_def)

subsection \<open>Employment documents that match no slip\<close>

lemma findMatchingT4_Nil: "findMatchingT4 rt extractedData [] = (None, 0)"
  by (simp add: findMatchingT4_def)

lemma findMatchingT4_loop_below:
  "\<forall>slip \<in> set slips. t4Score rt extractedData slip < k \<Longrightarrow> snd best < k
   \<Longrightarrow> snd (findMatchingT4_loop rt extractedData slips best) < k"
  by (induction rt extractedData slips best rule: findMatchingT4_loop.induct)
     (simp_all add: Let_def)

text \<open>
  Claim C4, as amended. For an extracted employment document whose employment income is
  above 0 and a filing with at least one employment slip: when every slip scores below 3
  and no slip's employment income matches the extracted income, \<^verbatim>\<open>crossCheckDocument\<close>
  gives exactly one suggestion, of type info and priority low, titled "New T4 Detected",
  with the action "Add T4". For a filing with no employment slip it gives no suggestion:
  the source asks for \<^verbatim>\<open>t4Slips.length > 0\<close> before that branch.
\<close>

theorem validateT4_new_record:
  "(documentType extracted = T4
    \<and> numberOrZero rt (doc_fields extracted ''employmentIncome'') > 0
    \<and> (\<forall>slip \<in> set (t4Slips (income filing)). t4Score rt (doc_fields extracted) slip < 3)
    \<and> (\<forall>slip \<in> set (t4Slips (income filing)).
          \<not> valuesMatch (numberOrZero rt (doc_fields extracted ''employmentIncome''))
               (t4_employmentIncome slip))
    \<and> t4Slips (income filing) \<noteq> []
    \<longrightarrow> (\<exists>s. discrepancies (fst (crossCheckDocument rt extracted filing n)) = [s]
             \<and> sg_type s = Info \<and> priority s = Low \<and> title s = ''New T4 Detected''
             \<and> actionLabel s = Some ''Add T4''))
   \<and> (documentType extracted = T4 \<and> t4Slips (income filing) = []
      \<longrightarrow> discrepancies (fst (crossCheckDocument rt extracted filing n)) = [])"
proof (intro conjI impI)
  assume h: "documentType extracted = T4
    \<and> numberOrZero rt (doc_fields extracted ''employmentIncome'') > 0
    \<and> (\<forall>slip \<in> set (t4Slips (income filing)). t4Score rt (doc_fields extracted) slip < 3)
    \<and> (\<forall>slip \<in> set (t4Slips (income filing)).
          \<not> valuesMatch (numberOrZero rt (doc_fields extracted ''employmentIncome''))
               (t4_employmentIncome slip))
    \<and> t4Slips (income filing) \<noteq> []"
  then have "snd (findMatchingT4 rt (doc_fields extracted) (t4Slips (income filing))) < 3"
    unfolding findMatchingT4_def by (intro findMatchingT4_loop_below) simp_all
  then have cm:
    "confidentMatch (findMatchingT4 rt (doc_fields extracted) (t4Slips (income filing))) = None"
    by (simp add: confidentMatch_def)
  from h have fn:
    "find (\<lambda>slip. valuesMatch (numberOrZero rt (doc_fields extracted ''employmentIncome''))
                    (t4_employmentIncome slip))
       (t4Slips (income filing)) = None"
    by (simp add: find_None_iff)
  from h cm fn
  show "\<exists>s. discrepancies (fst (crossCheckDocument rt extracted filing n)) = [s]
             \<and> sg_type s = Info \<and> priority s = Low \<and> title s = ''New T4 Detected''
             \<and> actionLabel s = Some ''Add T4''"
    by (simp add: crossCheckDocument_def validateT4_def Let_def)
next
  assume "documentType extracted = T4 \<and> t4Slips (income filing) = []"
  then show "discrepancies (fst (crossCheckDocument rt extracted filing n)) = []"
    by (simp add: crossCheckDocument_def validateT4_def Let_def findMatchingT4_Nil
        confidentMatch_def)
qed

text \<open>
  The claim as written includes the filing with no employment slip. There the extracted
  income 50000 is present, the best score is 0 and no slip matches, and nothing is
  emitted.
\<close>

theorem validateT4_new_record_counterexample:
  "documentType (sampleDocument T4 ''employmentIncome'' 50000) = T4
   \<and> numberOrZero sampleRuntime
        (doc_fields (sampleDocument T4 ''employmentIncome'' 50000) ''employmentIncome'') = 50000
   \<and> t4Slips (income sampleFiling) = []
   \<and> snd (findMatchingT4 sampleRuntime (doc_fields (sampleDocument T4 ''employmentIncome'' 50000))
            (t4Slips (income sampleFiling))) = 0
   \<and> discrepancies (fst (crossCheckDocument sampleRuntime
        (sampleDocument T4 ''employmentIncome'' 50000) sampleFiling 0)) = []"
  by (simp add: sampleDocument_def sampleFiling_def createEmptyFiling_def numberOrZero_def
      findMatchingT4_def crossCheckDocument_def validateT4_def confidentMatch_def Let_def)

theorem validateT4_new_record_witness:
  "t4Score sampleRuntime (doc_fields (sampleDocument T4 ''employmentIncome'' 50000))
      (sampleT4Slip ''acme'' 40000 5000) = 0
   \<and> valuesMatch 50000 (t4_employmentIncome (sampleT4Slip ''acme'' 40000 5000)) = False
   \<and> map (\<lambda>s. (sg_type s, priority s, title s, actionLabel s))
        (discrepancies (fst (crossCheckDocument sampleRuntime
            (sampleDocument T4 ''employmentIncome'' 50000)
            (withT4Slips [sampleT4Slip ''acme'' 40000 5000] sampleFiling) 0)))
      = [(Info, Low, ''New T4 Detected'', Some ''Add T4'')]
   \<and> discrepancies (fst (crossCheckDocument sampleRuntime
        (sampleDocument T4 ''employmentIncome'' 50000) sampleFiling 0)) = []"
  using validateT4_new_record
          [of "sampleDocument T4 ''employmentIncome'' 50000" sampleRuntime
              "withT4Slips [sampleT4Slip ''acme'' 40000 5000] sampleFiling" 0]
        validateT4_new_record
          [of "sampleDocument T4 ''employmentIncome'' 50000" sampleRuntime sampleFiling 0]
  by (auto simp: sampleDocument_def sampleFiling_def createEmptyFiling_def numberOrZero_def
      withT4Slips_def sampleT4Slip_def sampleRuntime_def t4Score_def
      stringOrEmpty_def valuesMatch_50000_40000 Let_def)

subsection \<open>Deduplication over all documents\<close>

lemma filterSeen_keepFirst:
  "filterSeen seen xs = specKeepFirstByTitle (filter (\<lambda>s. title s \<notin> seen) xs)"
proof (induction xs arbitrary: seen)
  case Nil
  show ?case by simp
next
  case (Cons x xs)
  have "filter (\<lambda>r. title r \<noteq> title x) (filter (\<lambda>s. title s \<notin> seen) xs)
          = filter (\<lambda>s. title s \<notin> insert (title x) seen) xs"
    by (induction xs) auto
  then show ?case using Cons.IH by simp
qed

lemma set_keepFirst_subset: "set (specKeepFirstByTitle xs) \<subseteq> set xs"
  by (induction xs rule: specKeepFirstByTitle.induct) auto

lemma count_keepFirst:
  "length (filter (\<lambda>s. title s = t) (specKeepFirstByTitle xs))
     = (if t \<in> title ` set xs then 1 else 0)"
proof (induction xs rule: specKeepFirstByTitle.induct)
  case 1
  show ?case by simp
next
  case (2 s rest)
  show ?case
  proof (cases "title s = t")
    case True
    have "t \<notin> title ` set (filter (\<lambda>r. title r \<noteq> title s) rest)"
      using True by auto
    with "2.IH" True show ?thesis by simp
  next
    case False
    have "(t \<in> title ` set (filter (\<lambda>r. title r \<noteq> title s) rest)) = (t \<in> title ` set rest)"
      using False by auto
    with "2.IH" False show ?thesis by auto
  qed
qed

lemma distinct_keepFirst: "distinct (map title (specKeepFirstByTitle xs))"
proof (induction xs rule: specKeepFirstByTitle.induct)
  case 1
  show ?case by simp
next
  case (2 s rest)
  have "set (specKeepFirstByTitle (filter (\<lambda>r. title r \<noteq> title s) rest))
          \<subseteq> set (filter (\<lambda>r. title r \<noteq> title s) rest)"
    by (rule set_keepFirst_subset)
  then have "title s \<notin> title ` set (specKeepFirstByTitle (filter (\<lambda>r. title r \<noteq> title s) rest))"
    by auto
  with "2.IH" show ?case by simp
qed

lemma validateT4_withoutId:
  "map withoutId (fst (validateT4 rt d f dn n)) = map withoutId (fst (validateT4 rt d f dn 0))"
  by (simp add: validateT4_def Let_def withoutId_def split: option.splits)

lemma validateT5_withoutId:
  "map withoutId (fst (validateT5 rt d f dn n)) = map withoutId (fst (validateT5 rt d f dn 0))"
  by (simp add: validateT5_def Let_def withoutId_def split: option.splits)

lemma validateRRSP_withoutId:
  "map withoutId (fst (validateRRSP rt d f dn n)) = map withoutId (fst (validateRRSP rt d f dn 0))"
  by (simp add: validateRRSP_def Let_def withoutId_def)

lemma validateDonation_withoutId:
  "map withoutId (fst (validateDonation rt d f dn n))
     = map withoutId (fst (validateDonation rt d f dn 0))"
  by (simp add: validateDonation_def Let_def withoutId_def)

lemma crossCheckDocument_withoutId:
  "map withoutId (discrepancies (fst (crossCheckDocument rt doc filing n)))
     = map withoutId (discrepancies (fst (crossCheckDocument rt doc filing 0)))"
  using validateT4_withoutId [of rt "doc_fields doc" filing "documentName doc" n]
    validateT5_withoutId [of rt "doc_fields doc" filing "documentName doc" n]
    validateRRSP_withoutId [of rt "doc_fields doc" filing "documentName doc" n]
    validateDonation_withoutId [of rt "doc_fields doc" filing "documentName doc" n]
  by (cases "documentType doc") (simp_all add: crossCheckDocument_def Let_def)

lemma allSuggestions_loop_concat:
  "map withoutId (fst (allSuggestions_loop rt docs filing (acc, n)))
     = map withoutId acc
       @ concat (map (\<lambda>doc. map withoutId (discrepancies (fst (crossCheckDocument rt doc filing 0))))
                  docs)"
proof (induction docs arbitrary: acc n)
  case Nil
  show ?case by simp
next
  case (Cons doc rest)
  show ?case
    using Cons.IH [of "acc @ discrepancies (fst (crossCheckDocument rt doc filing n))"
                      "snd (crossCheckDocument rt doc filing n)"]
          crossCheckDocument_withoutId [of rt doc filing n]
    by (simp add: Let_def)
qed

lemma title_withoutId: "title (withoutId s) = title s"
  by (simp add: withoutId_def)

text \<open>
  Claim C7. \<^verbatim>\<open>validateAllDocuments\<close> returns the suggestions collected over the
  documents with only the first suggestion of each title kept. The collected list is, up
  to the identifiers drawn, the concatenation in document order of what
  \<^verbatim>\<open>crossCheckDocument\<close> gives for each document. The titles of the result are
  distinct, and a title occurs in the result exactly once when some document produces a
  suggestion of that title, and not at all otherwise: two documents that each produce
  "RRSP Contribution Not Claimed" leave one such suggestion.
\<close>

theorem validateAllDocuments_dedup:
  "fst (validateAllDocuments rt docs filing n)
     = specKeepFirstByTitle (fst (allSuggestions_loop rt docs filing ([], n)))
   \<and> map withoutId (fst (allSuggestions_loop rt docs filing ([], n)))
     = concat (map (\<lambda>doc. map withoutId (discrepancies (fst (crossCheckDocument rt doc filing 0))))
                docs)
   \<and> distinct (map title (fst (validateAllDocuments rt docs filing n)))
   \<and> length (filter (\<lambda>s. title s = t) (fst (validateAllDocuments rt docs filing n)))
     = (if \<exists>doc \<in> set docs.
             \<exists>s \<in> set (discrepancies (fst (crossCheckDocument rt doc filing 0))). title s = t
        then 1 else 0)"
proof -
  let ?all = "fst (allSuggestions_loop rt docs filing ([], n))"
  have a: "fst (validateAllDocuments rt docs filing n) = specKeepFirstByTitle ?all"
    by (simp add: validateAllDocuments_def Let_def filterSeen_keepFirst)
  have b: "map withoutId ?all
     = concat (map (\<lambda>doc. map withoutId (discrepancies (fst (crossCheckDocument rt doc filing 0))))
                docs)"
    using allSuggestions_loop_concat [of rt docs filing "[]" n] by simp
  have c: "distinct (map title (fst (validateAllDocuments rt docs filing n)))"
    unfolding a by (rule distinct_keepFirst)
  have "title ` set ?all = title ` set (map withoutId ?all)"
    by (simp add: image_image title_withoutId)
  also have "\<dots> = title ` (\<Union>doc \<in> set docs.
        set (discrepancies (fst (crossCheckDocument rt doc filing 0))))"
    unfolding b by (simp add: image_UN image_image title_withoutId)
  finally have t: "(t \<in> title ` set ?all)
      = (\<exists>doc \<in> set docs.
             \<exists>s \<in> set (discrepancies (fst (crossCheckDocument rt doc filing 0))). title s = t)"
    by auto
  have d: "length (filter (\<lambda>s. title s = t) (fst (validateAllDocuments rt docs filing n)))
     = (if \<exists>doc \<in> set docs.
             \<exists>s \<in> set (discrepancies (fst (crossCheckDocument rt doc filing 0))). title s = t
        then 1 else 0)"
    unfolding a count_keepFirst t by simp
  from a b c d show ?thesis by blast
qed

theorem validateAllDocuments_dedup_witness:
  "map title (discrepancies (fst (crossCheckDocument sampleRuntime
       (sampleDocument RrspReceipt ''contributionAmount'' 1000) sampleFiling 0)))
     = [''RRSP Contribution Not Claimed'']
   \<and> map title (discrepancies (fst (crossCheckDocument sampleRuntime
       (sampleDocument RrspReceipt ''contributionAmount'' 2500) sampleFiling 0)))
     = [''RRSP Contribution Not Claimed'']
   \<and> length (filter (\<lambda>s. title s = ''RRSP Contribution Not Claimed'')
        (fst (validateAllDocuments sampleRuntime
           [sampleDocument RrspReceipt ''contributionAmount'' 1000,
            sampleDocument RrspReceipt ''contributionAmount'' 2500] sampleFiling 0))) = 1"
  using validateAllDocuments_dedup
          [of sampleRuntime
              "[sampleDocument RrspReceipt ''contributionAmount'' 1000,
                sampleDocument RrspReceipt ''contributionAmount'' 2500]"
              sampleFiling 0 "''RRSP Contribution Not Claimed''"]
  by (simp add: crossCheckDocument_def validateRRSP_def sampleDocument_def sampleFiling_def
      createEmptyFiling_def numberOrZero_def Let_def)

section \<open>Properties of the submission transformer\<close>

lemma sum_list_pos_nonneg:
  "(\<forall>x \<in> set xs. 0 \<le> f x) \<Longrightarrow> (\<exists>x \<in> set xs. f x \<noteq> 0) \<Longrightarrow> 0 < sum_list (map f xs :: real list)"
proof (induction xs)
  case Nil
  then show ?case by simp
next
  case (Cons a xs)
  have nn: "0 \<le> sum_list (map f xs)"
    using Cons.prems(1) by (intro sum_list_nonneg) auto
  show ?case
  proof (cases "f a = 0")
    case True
    with Cons show ?thesis by auto
  next
    case False
    with Cons.prems(1) have "0 < f a" by (simp add: less_le)
    with nn show ?thesis by simp
  qed
qed

lemma transform_totalTaxWithheld:
  "nfi_totalTaxWithheld (nf_income (transformFilingToNetfile filing summary'))
     = sum_list (map t4_incomeTaxDeducted (t4Slips (income filing)))
       + sum_list (map t4a_incomeTaxDeducted (t4aSlips (income filing)))
       + sum_list (map t4e_incomeTaxDeducted (t4eSlips (income filing)))"
  by (simp add: transformFilingToNetfile_def Let_def foldl_plus_sum_list)

lemma calculateSummary_totalPaid:
  "totalPaid (calculateSummary (Some filing))
     = sum_list (map t4_incomeTaxDeducted (t4Slips (income filing)))
       + sum_list (map t4a_incomeTaxDeducted (t4aSlips (income filing)))
       + sum_list (map t4e_incomeTaxDeducted (t4eSlips (income filing)))
       + sum_list (map t4rsp_incomeTaxDeducted (t4rspSlips (income filing)))"
  by (simp add: calculateSummary_def calcTotalPaid_def Let_def foldl_plus_sum_list)

text \<open>
  Claim C10, as amended. \<^verbatim>\<open>income.totalTaxWithheld\<close> of the request is the sum of
  the tax withheld on the t4, t4a and t4e slips; \<^verbatim>\<open>totalPaid\<close> of the calculation
  engine is that sum plus the tax withheld on the t4rsp slips. When no t4rsp slip has a
  negative withheld tax and one has a withheld tax other than 0, the field of the request
  is strictly below \<^verbatim>\<open>totalPaid\<close>.
\<close>

theorem totalTaxWithheld_excludes_t4rsp:
  "nfi_totalTaxWithheld (nf_income (transformFilingToNetfile filing summary'))
     = sum_list (map t4_incomeTaxDeducted (t4Slips (income filing)))
       + sum_list (map t4a_incomeTaxDeducted (t4aSlips (income filing)))
       + sum_list (map t4e_incomeTaxDeducted (t4eSlips (income filing)))
   \<and> totalPaid (calculateSummary (Some filing))
     = nfi_totalTaxWithheld (nf_income (transformFilingToNetfile filing summary'))
       + sum_list (map t4rsp_incomeTaxDeducted (t4rspSlips (income filing)))
   \<and> ((\<forall>slip \<in> set (t4rspSlips (income filing)). 0 \<le> t4rsp_incomeTaxDeducted slip)
       \<and> (\<exists>slip \<in> set (t4rspSlips (income filing)). t4rsp_incomeTaxDeducted slip \<noteq> 0)
      \<longrightarrow> nfi_totalTaxWithheld (nf_income (transformFilingToNetfile filing summary'))
            < totalPaid (calculateSummary (Some filing)))"
  using sum_list_pos_nonneg [of "t4rspSlips (income filing)" t4rsp_incomeTaxDeducted]
  by (simp only: transform_totalTaxWithheld calculateSummary_totalPaid) auto

text \<open>
  The claim as written asks only for a t4rsp slip of withheld tax other than 0. With one
  slip of withheld tax \<open>-100\<close> the field of the request is 0 and \<^verbatim>\<open>totalPaid\<close> is
  \<open>-100\<close>.
\<close>

theorem totalTaxWithheld_excludes_t4rsp_counterexample:
  "t4rspSlips (income (withT4RSPSlips [sampleT4RSPSlip 1000 (- 100)] sampleFiling))
     = [sampleT4RSPSlip 1000 (- 100)]
   \<and> t4rsp_incomeTaxDeducted (sampleT4RSPSlip 1000 (- 100)) \<noteq> 0
   \<and> \<not> nfi_totalTaxWithheld (nf_income (transformFilingToNetfile
            (withT4RSPSlips [sampleT4RSPSlip 1000 (- 100)] sampleFiling)
            (calculateSummary (Some (withT4RSPSlips [sampleT4RSPSlip 1000 (- 100)] sampleFiling)))))
        < totalPaid (calculateSummary
            (Some (withT4RSPSlips [sampleT4RSPSlip 1000 (- 100)] sampleFiling)))"
  by (simp add: transform_totalTaxWithheld calculateSummary_totalPaid withT4RSPSlips_def
      sampleT4RSPSlip_def sampleFiling_def createEmptyFiling_def)

theorem totalTaxWithheld_excludes_t4rsp_witness:
  "0 \<le> t4rsp_incomeTaxDeducted (sampleT4RSPSlip 1000 300)
   \<and> t4rsp_incomeTaxDeducted (sampleT4RSPSlip 1000 300) \<noteq> 0
   \<and> nfi_totalTaxWithheld (nf_income (transformFilingToNetfile
       (withT4RSPSlips [sampleT4RSPSlip 1000 300]
          (withT4Slips [sampleT4Slip ''acme'' 50000 8000] sampleFiling))
       (calculateSummary None))) = 8000
   \<and> totalPaid (calculateSummary
       (Some (withT4RSPSlips [sampleT4RSPSlip 1000 300]
          (withT4Slips [sampleT4Slip ''acme'' 50000 8000] sampleFiling)))) = 8300
   \<and> nfi_totalTaxWithheld (nf_income (transformFilingToNetfile
       (withT4RSPSlips [sampleT4RSPSlip 1000 300]
          (withT4Slips [sampleT4Slip ''acme'' 50000 8000] sampleFiling))
       (calculateSummary None)))
     < totalPaid (calculateSummary
       (Some (withT4RSPSlips [sampleT4RSPSlip 1000 300]
          (withT4Slips [sampleT4Slip ''acme'' 50000 8000] sampleFiling))))"
  using totalTaxWithheld_excludes_t4rsp
          [of "withT4RSPSlips [sampleT4RSPSlip 1000 300]
                 (withT4Slips [sampleT4Slip ''acme'' 50000 8000] sampleFiling)"
              "calculateSummary None"]
  by (simp add: withT4RSPSlips_def withT4Slips_def sampleT4RSPSlip_def sampleT4Slip_def
      sampleFiling_def createEmptyFiling_def)

end
